theory Spec2Isabelle
  imports Complex_Main
begin

section \<open>Python values, exceptions and name resolution\<close>

text \<open>
  The development follows \<^verbatim>\<open>graphgallery/nn/models/semisupervised/tf_models/dagnn.py\<close>,
  the class \<^verbatim>\<open>DAGNN\<close>. Tensors hold reals: rounding of the floating-point
  arithmetic is outside the embedding. A dense or sparse matrix is the list of its rows.
\<close>

type_synonym matrix = "real list list"

datatype py_error =
    NameError string
  | AttributeError string
  | UnboundLocalError string
  | TypeError string
  | ValueError string
  | ConfigurationError
  | ShapeError
  | IndexError

datatype pyval =
    PyNone
  | PyBool bool
  | PyInt int
  | PyFloat real
  | PyStr string
  | PyArray matrix
  | PyIndex "int list"
  | PyList "pyval list"
  | PyObject string

text \<open>An exception stops the statements that follow it.\<close>

definition bindE :: "py_error + 'a \<Rightarrow> ('a \<Rightarrow> py_error + 'b) \<Rightarrow> py_error + 'b" where
  "bindE m f = (case m of Inl e \<Rightarrow> Inl e | Inr v \<Rightarrow> f v)"

text \<open>
  The truth value \<^verbatim>\<open>if v:\<close> tests. \<^verbatim>\<open>None\<close>, \<^verbatim>\<open>False\<close>, a zero number and an empty
  string or list are false; an array of more than one element has no truth value.
\<close>

definition truthy :: "pyval \<Rightarrow> py_error + bool" where
  "truthy v =
     (case v of
        PyNone \<Rightarrow> Inr False
      | PyBool b \<Rightarrow> Inr b
      | PyInt i \<Rightarrow> Inr (i \<noteq> 0)
      | PyFloat r \<Rightarrow> Inr (r \<noteq> 0)
      | PyStr s \<Rightarrow> Inr (s \<noteq> [])
      | PyArray m \<Rightarrow>
          (case concat m of
             [] \<Rightarrow> Inr False
           | [a] \<Rightarrow> Inr (a \<noteq> 0)
           | _ \<Rightarrow> Inl (ValueError ''truth value of an array is ambiguous''))
      | PyIndex ix \<Rightarrow>
          (case ix of
             [] \<Rightarrow> Inr False
           | [i] \<Rightarrow> Inr (i \<noteq> 0)
           | _ \<Rightarrow> Inl (ValueError ''truth value of an array is ambiguous''))
      | PyList vs \<Rightarrow> Inr (vs \<noteq> [])
      | PyObject _ \<Rightarrow> Inr True)"

text \<open>
  The names the module binds: its imports (lines 1 to 12), the class it defines, and the
  names every module has.
\<close>

definition module_globals :: "string list" where
  "module_globals =
     [''tf'', ''Model'', ''Input'', ''Dropout'', ''Dense'', ''Adam'', ''regularizers'',
      ''SparseCategoricalCrossentropy'', ''PropConvolution'', ''Gather'',
      ''SemiSupervisedModel'', ''FullBatchNodeSequence'', ''EqualVarLength'',
      ''astensors'', ''asintarr'', ''normalize_x'', ''normalize_adj'', ''Bunch'',
      ''DAGNN'',
      ''__name__'', ''__doc__'', ''__package__'', ''__loader__'', ''__spec__'',
      ''__file__'', ''__cached__'', ''__builtins__'']"

text \<open>The names of Python's \<^verbatim>\<open>builtins\<close> module.\<close>

definition builtin_names :: "string list" where
  "builtin_names =
     [''abs'', ''all'', ''any'', ''ascii'', ''bin'', ''bool'', ''breakpoint'',
      ''bytearray'', ''bytes'', ''callable'', ''chr'', ''classmethod'', ''compile'',
      ''complex'', ''copyright'', ''credits'', ''delattr'', ''dict'', ''dir'',
      ''divmod'', ''enumerate'', ''eval'', ''exec'', ''exit'', ''filter'', ''float'',
      ''format'', ''frozenset'', ''getattr'', ''globals'', ''hasattr'', ''hash'',
      ''help'', ''hex'', ''id'', ''input'', ''int'', ''isinstance'', ''issubclass'',
      ''iter'', ''len'', ''license'', ''list'', ''locals'', ''map'', ''max'',
      ''memoryview'', ''min'', ''next'', ''object'', ''oct'', ''open'', ''ord'',
      ''pow'', ''print'', ''property'', ''quit'', ''range'', ''repr'', ''reversed'',
      ''round'', ''set'', ''setattr'', ''slice'', ''sorted'', ''staticmethod'',
      ''str'', ''sum'', ''super'', ''tuple'', ''type'', ''vars'', ''zip'',
      ''__import__'', ''__build_class__'', ''__debug__'', ''__doc__'', ''__loader__'',
      ''__name__'', ''__package__'', ''__spec__'', ''Ellipsis'', ''NotImplemented'',
      ''ArithmeticError'', ''AssertionError'', ''AttributeError'', ''BaseException'',
      ''BlockingIOError'', ''BrokenPipeError'', ''BufferError'', ''BytesWarning'',
      ''ChildProcessError'', ''ConnectionAbortedError'', ''ConnectionError'',
      ''ConnectionRefusedError'', ''ConnectionResetError'', ''DeprecationWarning'',
      ''EOFError'', ''EnvironmentError'', ''Exception'', ''FileExistsError'',
      ''FileNotFoundError'', ''FloatingPointError'', ''FutureWarning'',
      ''GeneratorExit'', ''IOError'', ''ImportError'', ''ImportWarning'',
      ''IndentationError'', ''IndexError'', ''InterruptedError'',
      ''IsADirectoryError'', ''KeyError'', ''KeyboardInterrupt'', ''LookupError'',
      ''MemoryError'', ''ModuleNotFoundError'', ''NameError'', ''NotADirectoryError'',
      ''NotImplementedError'', ''OSError'', ''OverflowError'',
      ''PendingDeprecationWarning'', ''PermissionError'', ''ProcessLookupError'',
      ''RecursionError'', ''ReferenceError'', ''ResourceWarning'', ''RuntimeError'',
      ''RuntimeWarning'', ''StopAsyncIteration'', ''StopIteration'', ''SyntaxError'',
      ''SyntaxWarning'', ''SystemError'', ''SystemExit'', ''TabError'',
      ''TimeoutError'', ''TypeError'', ''UnboundLocalError'', ''UnicodeDecodeError'',
      ''UnicodeEncodeError'', ''UnicodeError'', ''UnicodeTranslateError'',
      ''UnicodeWarning'', ''UserWarning'', ''ValueError'', ''Warning'',
      ''ZeroDivisionError'']"

text \<open>
  A name a function neither takes as a parameter nor assigns is read from the module's
  globals, then from the builtins; a name bound in neither raises \<^verbatim>\<open>NameError\<close>.
  The object found is opaque here.
\<close>

definition load_global :: "string \<Rightarrow> py_error + pyval" where
  "load_global n =
     (if n \<in> set module_globals then Inr (PyObject n)
      else if n \<in> set builtin_names then Inr (PyObject n)
      else Inl (NameError n))"

section \<open>Tensor algebra\<close>

definition is_matrix :: "nat \<Rightarrow> nat \<Rightarrow> matrix \<Rightarrow> bool" where
  "is_matrix n d M = (length M = n \<and> list_all (\<lambda>r. length r = d) M)"

definition width :: "matrix \<Rightarrow> nat" where
  "width M = (case M of [] \<Rightarrow> 0 | r # _ \<Rightarrow> length r)"

definition vec_add :: "real list \<Rightarrow> real list \<Rightarrow> real list" where
  "vec_add u v = map2 (+) u v"

definition vec_scale :: "real \<Rightarrow> real list \<Rightarrow> real list" where
  "vec_scale a v = map (\<lambda>c. a * c) v"

definition mat_add :: "matrix \<Rightarrow> matrix \<Rightarrow> matrix" where
  "mat_add M N = map2 vec_add M N"

text \<open>Row \<open>i\<close> of \<open>A \<cdot> H\<close> is the sum over \<open>k\<close> of \<open>A[i][k]\<close> times row \<open>k\<close> of \<open>H\<close>.\<close>

fun lin_comb :: "nat \<Rightarrow> real list \<Rightarrow> matrix \<Rightarrow> real list" where
  "lin_comb d (a # as) (r # rs) = vec_add (vec_scale a r) (lin_comb d as rs)"
| "lin_comb d _ _ = replicate d 0"

definition mat_mul :: "matrix \<Rightarrow> matrix \<Rightarrow> matrix" where
  "mat_mul A H = map (\<lambda>ar. lin_comb (width H) ar H) A"

text \<open>The logistic function, over the reals.\<close>

definition sigmoid :: "real \<Rightarrow> real" where
  "sigmoid z = 1 / (1 + exp (- z))"

definition relu :: "real \<Rightarrow> real" where
  "relu z = max 0 z"

text \<open>
  Keras resolves an activation by its name. The elementwise activations are covered;
  a name Keras does not know raises \<^verbatim>\<open>ValueError\<close>.
\<close>

definition keras_activation :: "string \<Rightarrow> py_error + (real \<Rightarrow> real)" where
  "keras_activation a =
     (if a = ''relu'' then Inr relu
      else if a = ''sigmoid'' then Inr sigmoid
      else if a = ''tanh'' then Inr tanh
      else if a = ''linear'' then Inr (\<lambda>z. z)
      else Inl (ValueError a))"

section \<open>The Adaptive Propagation Operator and the Index Gather\<close>

text \<open>
  \<^verbatim>\<open>PropConvolution\<close> and \<^verbatim>\<open>Gather\<close> are imported from \<^verbatim>\<open>graphgallery.nn.layers\<close>
  (line 8), whose source is not at hand.
\<close>

record prop_layer =
  p_K :: nat
  p_use_bias :: bool
  p_activation :: "real \<Rightarrow> real"
  p_l2 :: real

text \<open>
  Modelled from the spec: the constructor of \<^verbatim>\<open>PropConvolution\<close>, section 4.2,
  "K must be a positive integer: reject (ConfigurationError) if zero or negative".
  The gate activation is given by name, \<^verbatim>\<open>activation='sigmoid'\<close> on line 99.
\<close>

definition PropConvolution :: "int \<Rightarrow> bool \<Rightarrow> string \<Rightarrow> real \<Rightarrow> py_error + prop_layer" where
  "PropConvolution k use_bias activation l2 =
     (if k \<le> 0 then Inl ConfigurationError
      else bindE (keras_activation activation) (\<lambda>act.
        Inr \<lparr>p_K = nat k, p_use_bias = use_bias, p_activation = act, p_l2 = l2\<rparr>))"

text \<open>
  Modelled from the spec: step 2 of section 4.2, \<open>H\<^sub>t = A \<cdot> H\<^sub>t\<^sub>-\<^sub>1\<close> for \<open>t = 1..K\<close>, and
  step 3, the stack \<open>[H\<^sub>0, H\<^sub>1, ..., H\<^sub>K]\<close>.
\<close>

fun propagate :: "nat \<Rightarrow> matrix \<Rightarrow> matrix \<Rightarrow> matrix list" where
  "propagate 0 A H = [H]"
| "propagate (Suc k) A H = H # propagate k A (mat_mul A H)"

text \<open>
  The product of a weight vector with a row. The weights are read by position, so there
  is one for every column.
\<close>

definition dot :: "(nat \<Rightarrow> real) \<Rightarrow> real list \<Rightarrow> real" where
  "dot w r = sum_list (map (\<lambda>(k, c). w k * c) (enumerate 0 r))"

text \<open>
  Modelled from the spec: step 4 of section 4.2, the gate \<open>g\<^sub>t = \<sigma>(W\<^sub>g \<cdot> H\<^sub>t + b)\<close> of a
  node, with the bias \<open>b\<close> only when the bias flag is set.
\<close>

definition gate :: "prop_layer \<Rightarrow> (nat \<Rightarrow> real) \<Rightarrow> real \<Rightarrow> real list \<Rightarrow> real" where
  "gate L w b r = p_activation L (dot w r + (if p_use_bias L then b else 0))"

text \<open>Modelled from the spec: step 4 of section 4.2, the gates of all nodes at one step.\<close>

definition gates :: "prop_layer \<Rightarrow> (nat \<Rightarrow> real) \<Rightarrow> real \<Rightarrow> matrix \<Rightarrow> real list" where
  "gates L w b H = map (gate L w b) H"

text \<open>
  Modelled from the spec: step 4 of section 4.2, the gate tensor, one gate for every step
  \<open>t = 0..K\<close> and every node.
\<close>

definition gate_tensor ::
  "prop_layer \<Rightarrow> (nat \<Rightarrow> real) \<Rightarrow> real \<Rightarrow> matrix \<Rightarrow> matrix \<Rightarrow> real list list" where
  "gate_tensor L w b H0 A = map (gates L w b) (propagate (p_K L) A H0)"

text \<open>
  Modelled from the spec: step 5 of section 4.2, one term \<open>g\<^sub>t[n] \<cdot> H\<^sub>t[n]\<close> for every node
  \<open>n\<close>.
\<close>

definition gated :: "real list \<Rightarrow> matrix \<Rightarrow> matrix" where
  "gated gs H = map2 vec_scale gs H"

text \<open>
  Modelled from the spec: step 5 of section 4.2, the sum over the steps,
  \<open>H_final[n] = \<Sum>\<^sub>t g\<^sub>t[n] \<cdot> H\<^sub>t[n]\<close>.
\<close>

fun mat_sum :: "matrix list \<Rightarrow> matrix" where
  "mat_sum [] = []"
| "mat_sum [M] = M"
| "mat_sum (M # Ms) = mat_add M (mat_sum Ms)"

text \<open>
  Modelled from the spec: the call of the layer on \<^verbatim>\<open>[h, adj]\<close>, section 4.2. "A must be
  square with row count equal to H0's row count: dimension mismatch fails with a
  ShapeError before any computation is attempted".
\<close>

definition PropConvolution_call ::
  "prop_layer \<Rightarrow> (nat \<Rightarrow> real) \<Rightarrow> real \<Rightarrow> matrix \<Rightarrow> matrix \<Rightarrow> py_error + matrix" where
  "PropConvolution_call L w b H0 A =
     (if \<not> is_matrix (length H0) (length H0) A then Inl ShapeError
      else Inr (mat_sum (map2 gated (gate_tensor L w b H0 A) (propagate (p_K L) A H0))))"

text \<open>
  Modelled from the spec: \<^verbatim>\<open>Gather\<close>, section 4.3. The rows of the selected nodes in
  the given order; \<^verbatim>\<open>IndexError\<close> if an index falls outside \<open>[0, node_count)\<close>.
\<close>

definition Gather :: "matrix \<Rightarrow> int list \<Rightarrow> py_error + matrix" where
  "Gather H index =
     (if list_all (\<lambda>i. 0 \<le> i \<and> i < int (length H)) index
      then Inr (map (\<lambda>i. H ! nat i) index)
      else Inl IndexError)"

section \<open>The Keras layers of the encoder\<close>

text \<open>
  \<^verbatim>\<open>Dense\<close> and \<^verbatim>\<open>Dropout\<close> are Keras layers (line 3). A dense layer computes
  \<open>activation(h \<cdot> W + c)\<close> for its kernel \<open>W\<close> and bias \<open>c\<close>; Keras creates the kernel
  with one row per input column and one column per unit, so it is read by position. The L2 strength
  enters the training loss only.
\<close>

record dense_layer =
  d_units :: nat
  d_use_bias :: bool
  d_activation :: "real \<Rightarrow> real"
  d_l2 :: real

definition Dense :: "nat \<Rightarrow> bool \<Rightarrow> string \<Rightarrow> real \<Rightarrow> py_error + dense_layer" where
  "Dense units use_bias activation l2 =
     bindE (keras_activation activation) (\<lambda>act.
       Inr \<lparr>d_units = units, d_use_bias = use_bias, d_activation = act, d_l2 = l2\<rparr>)"

definition Dense_call ::
  "dense_layer \<Rightarrow> (nat \<Rightarrow> nat \<Rightarrow> real) \<Rightarrow> (nat \<Rightarrow> real) \<Rightarrow> matrix \<Rightarrow> matrix" where
  "Dense_call D W c h =
     map (\<lambda>r. map (\<lambda>j. d_activation D
                    (dot (\<lambda>k. W k j) r + (if d_use_bias D then c j else 0)))
                [0..<d_units D]) h"

text \<open>
  A dropout layer is the identity at inference. In training it zeroes the entries its
  random mask drops and scales the others by \<open>1 / (1 - rate)\<close>; the mask is an input
  here, \<open>keep i j\<close> for the entry of row \<open>i\<close> and column \<open>j\<close>.
\<close>

definition Dropout_call :: "real \<Rightarrow> bool \<Rightarrow> (nat \<Rightarrow> nat \<Rightarrow> bool) \<Rightarrow> matrix \<Rightarrow> matrix" where
  "Dropout_call rate training keep h =
     (if training
      then map (\<lambda>(i, r). map (\<lambda>(j, c). if keep i j then c / (1 - rate) else 0)
                           (enumerate 0 r)) (enumerate 0 h)
      else h)"

text \<open>
  The trainable variables: kernel and bias of the dense layer at each position, and the
  weight vector and bias of the propagation operator.
\<close>

record weights =
  dense_kernel :: "nat \<Rightarrow> nat \<Rightarrow> nat \<Rightarrow> real"
  dense_bias :: "nat \<Rightarrow> nat \<Rightarrow> real"
  prop_kernel :: "nat \<Rightarrow> real"
  prop_bias :: real

text \<open>
  The Keras model lines 87 to 104 assemble: the input width, the dense layers each
  followed by its dropout rate, the propagation operator, the learning rate of the
  optimizer, and the trainable variables.
\<close>

record network =
  net_n_attrs :: nat
  net_layers :: "(dense_layer \<times> real) list"
  net_prop :: prop_layer
  net_lr :: real
  net_weights :: weights

fun encoder ::
  "bool \<Rightarrow> (nat \<Rightarrow> nat \<Rightarrow> nat \<Rightarrow> bool) \<Rightarrow> weights \<Rightarrow> nat \<Rightarrow> (dense_layer \<times> real) list
     \<Rightarrow> matrix \<Rightarrow> matrix" where
  "encoder training keep w l [] h = h"
| "encoder training keep w l ((D, rate) # ls) h =
     encoder training keep w (Suc l) ls
       (Dropout_call rate training (keep l)
          (Dense_call D (dense_kernel w l) (dense_bias w l) h))"

text \<open>
  One forward pass of the model on \<^verbatim>\<open>[x, adj, index]\<close>: the encoder, the propagation
  operator on \<^verbatim>\<open>[h, adj]\<close> (line 99), the gather on \<^verbatim>\<open>[h, index]\<close> (line 100). The
  attribute matrix has \<^verbatim>\<open>n_attrs\<close> columns (line 87). \<open>keep\<close> is the random state the
  dropout masks are drawn from.
\<close>

definition forward ::
  "bool \<Rightarrow> (nat \<Rightarrow> nat \<Rightarrow> nat \<Rightarrow> bool) \<Rightarrow> network \<Rightarrow> matrix \<Rightarrow> matrix \<Rightarrow> int list
     \<Rightarrow> py_error + matrix" where
  "forward training keep net x adj index =
     (if \<not> list_all (\<lambda>r. length r = net_n_attrs net) x then Inl (ValueError ''attr_matrix'')
      else bindE (PropConvolution_call (net_prop net)
                    (prop_kernel (net_weights net)) (prop_bias (net_weights net))
                    (encoder training keep (net_weights net) 0 (net_layers net) x) adj)
             (\<lambda>h. Gather h index))"

text \<open>\<^verbatim>\<open>predict_on_batch\<close> runs the forward pass in inference mode.\<close>

definition predict_on_batch ::
  "network \<Rightarrow> (nat \<Rightarrow> nat \<Rightarrow> nat \<Rightarrow> bool) \<Rightarrow> pyval \<Rightarrow> pyval \<Rightarrow> pyval \<Rightarrow> py_error + matrix" where
  "predict_on_batch net keep x adj index =
     (case (x, adj, index) of
        (PyArray xm, PyArray am, PyIndex ix) \<Rightarrow> forward False keep net xm am ix
      | _ \<Rightarrow> Inl (TypeError ''predict_on_batch''))"

section \<open>The class DAGNN\<close>

text \<open>
  A per-layer option of \<^verbatim>\<open>build\<close> is a single value or a list of values.
\<close>

datatype 'a cfg = One 'a | Many "'a list"

record build_paras =
  bp_hiddens :: "nat list"
  bp_activations :: "string list"
  bp_dropouts :: "real list"
  bp_l2_norms :: "real list"
  bp_lr :: real
  bp_use_bias :: bool

text \<open>
  The attributes of the instance. An attribute that has not been set yet is \<open>None\<close>,
  and reading it raises \<^verbatim>\<open>AttributeError\<close>.
\<close>

record dagnn =
  self_graph :: pyval
  self_device :: pyval
  self_seed :: pyval
  self_name :: pyval
  self_n_attrs :: "nat option"
  self_n_classes :: "nat option"
  self_paras :: "build_paras option"
  self_model_paras :: "build_paras option"
  self_norm_adj :: "pyval option"
  self_norm_x :: "pyval option"
  self_K :: "int option"
  self_adj :: "pyval option"
  self_x :: "pyval option"
  self_x_norm :: "pyval option"
  self_adj_norm :: "pyval option"
  self_model :: "network option"

definition getattr :: "string \<Rightarrow> 'a option \<Rightarrow> py_error + 'a" where
  "getattr n v = (case v of None \<Rightarrow> Inl (AttributeError n) | Some a \<Rightarrow> Inr a)"

text \<open>
  The base class \<^verbatim>\<open>SemiSupervisedModel\<close> (line 9) and the helpers imported from
  \<^verbatim>\<open>graphgallery\<close> (line 12) are not at hand: the class is modelled for any behaviour
  of theirs, given as functions that return a value or raise.
\<close>

record graphgallery =
  super_init :: "pyval \<Rightarrow> pyval \<Rightarrow> pyval \<Rightarrow> pyval \<Rightarrow> (string \<times> pyval) list \<Rightarrow> py_error + dagnn"
  super_preprocess :: "dagnn \<Rightarrow> pyval \<Rightarrow> pyval \<Rightarrow> py_error + dagnn"
  super_predict :: "dagnn \<Rightarrow> pyval \<Rightarrow> py_error + unit"
  normalize_adj :: "pyval \<Rightarrow> pyval \<Rightarrow> py_error + pyval"
  normalize_x :: "pyval \<Rightarrow> pyval \<Rightarrow> py_error + pyval"
  astensors :: "pyval \<Rightarrow> py_error + pyval"
  asintarr :: "pyval \<Rightarrow> py_error + pyval"

text \<open>The assignment of a sequence of two values to two targets (line 69).\<close>

definition unpack2 :: "pyval \<Rightarrow> py_error + pyval \<times> pyval" where
  "unpack2 v =
     (case v of
        PyList [a, b] \<Rightarrow> Inr (a, b)
      | PyList _ \<Rightarrow> Inl (ValueError ''unpack'')
      | _ \<Rightarrow> Inl (TypeError ''unpack''))"

text \<open>
  \<^verbatim>\<open>preprocess\<close>, lines 58 to 69. The device scope of line 68 places the tensors and
  does not change their values.
\<close>

definition preprocess :: "graphgallery \<Rightarrow> dagnn \<Rightarrow> pyval \<Rightarrow> pyval \<Rightarrow> py_error + dagnn" where
  "preprocess G self adj x =
     bindE (super_preprocess G self adj x) (\<lambda>self.
     bindE (getattr ''adj'' (self_adj self)) (\<lambda>adj.
     bindE (getattr ''x'' (self_x self)) (\<lambda>x.
     bindE (getattr ''norm_adj'' (self_norm_adj self)) (\<lambda>norm_adj.
     bindE (truthy norm_adj) (\<lambda>t.
     bindE (if t then normalize_adj G adj norm_adj else Inr adj) (\<lambda>adj.
     bindE (getattr ''norm_x'' (self_norm_x self)) (\<lambda>norm_x.
     bindE (truthy norm_x) (\<lambda>t.
     bindE (if t then normalize_x G x norm_x else Inr x) (\<lambda>x.
     bindE (astensors G (PyList [x, adj])) (\<lambda>ts.
     bindE (unpack2 ts) (\<lambda>(x_norm, adj_norm).
       Inr (self\<lparr>self_x_norm := Some x_norm, self_adj_norm := Some adj_norm\<rparr>))))))))))))"

text \<open>The three assignments of lines 53 to 55: the arguments are stored as they are.\<close>

definition set_hyperparameters :: "dagnn \<Rightarrow> pyval \<Rightarrow> pyval \<Rightarrow> int \<Rightarrow> dagnn" where
  "set_hyperparameters self norm_adj norm_x K =
     self\<lparr>self_norm_adj := Some norm_adj, self_norm_x := Some norm_x, self_K := Some K\<rparr>"

text \<open>
  \<^verbatim>\<open>__init__\<close>, lines 22 to 56. The base class is given the graph, the device, the
  seed, the name and the other keyword arguments, not \<open>K\<close>. The names \<^verbatim>\<open>adj\<close> and \<^verbatim>\<open>x\<close> of line 56 are neither
  parameters of \<^verbatim>\<open>__init__\<close> nor assigned in it, so they are read as globals, after
  the method \<^verbatim>\<open>self.preprocess\<close> has been found and before it is called.
\<close>

definition DAGNN_init ::
  "graphgallery \<Rightarrow> pyval \<Rightarrow> pyval \<Rightarrow> pyval \<Rightarrow> int \<Rightarrow> pyval \<Rightarrow> pyval \<Rightarrow> pyval
     \<Rightarrow> (string \<times> pyval) list \<Rightarrow> py_error + dagnn" where
  "DAGNN_init G graph norm_adj norm_x K device seed name kwargs =
     bindE (super_init G graph device seed name kwargs) (\<lambda>self.
     let self = set_hyperparameters self norm_adj norm_x K
     in bindE (load_global ''adj'') (\<lambda>adj.
        bindE (load_global ''x'') (\<lambda>x.
          preprocess G self adj x)))"

text \<open>
  Modelled from the spec: the "list length" of an option, section 9; a single value has
  none to compare.
\<close>

definition list_length :: "'a cfg \<Rightarrow> nat" where
  "list_length c = (case c of One _ \<Rightarrow> 0 | Many vs \<Rightarrow> length vs)"

text \<open>
  Modelled from the spec: section 9, "broadcasts scalars to the maximum list length".
\<close>

definition broadcast :: "nat \<Rightarrow> 'a cfg \<Rightarrow> 'a list" where
  "broadcast m c = (case c of One v \<Rightarrow> replicate m v | Many vs \<Rightarrow> vs)"

text \<open>
  Modelled from the spec: \<^verbatim>\<open>set_equal_in_length\<close>, the function line 78 calls, from
  section 9: it "accepts either a single value or a list for each option, broadcasts
  scalars to the maximum list length found among the four options, and validates equal
  final lengths before constructing layers: reject with ConfigurationError otherwise".
\<close>

definition set_equal_in_length ::
  "nat cfg \<Rightarrow> string cfg \<Rightarrow> real cfg \<Rightarrow> real cfg
     \<Rightarrow> py_error + nat list \<times> string list \<times> real list \<times> real list" where
  "set_equal_in_length hiddens activations dropouts l2_norms =
     (let m = max (max (list_length hiddens) (list_length activations))
                  (max (list_length dropouts) (list_length l2_norms));
          hs = broadcast m hiddens; as = broadcast m activations;
          ds = broadcast m dropouts; ls = broadcast m l2_norms
      in if length hs = m \<and> length as = m \<and> length ds = m \<and> length ls = m
         then Inr (hs, as, ds, ls)
         else Inl ConfigurationError)"

text \<open>The loop of lines 92 to 94: one dense layer and its dropout rate per step.\<close>

fun dense_stack ::
  "bool \<Rightarrow> (nat \<times> string \<times> real \<times> real) list \<Rightarrow> py_error + (dense_layer \<times> real) list" where
  "dense_stack use_bias [] = Inr []"
| "dense_stack use_bias ((hid, activation, dropout, l2_norm) # rest) =
     bindE (Dense hid use_bias activation l2_norm) (\<lambda>D.
     bindE (dense_stack use_bias rest) (\<lambda>Ds. Inr ((D, dropout) # Ds)))"

text \<open>
  The values \<^verbatim>\<open>activation\<close>, \<^verbatim>\<open>dropout\<close> and \<^verbatim>\<open>l2_norm\<close> lines 96 to 99 read are the
  ones the last step of the loop left; they are unbound when the loop made no step.
\<close>

definition loop_last ::
  "(nat \<times> string \<times> real \<times> real) list \<Rightarrow> py_error + string \<times> real \<times> real" where
  "loop_last zs =
     (case rev zs of
        [] \<Rightarrow> Inl (UnboundLocalError ''activation'')
      | (hid, activation, dropout, l2_norm) # _ \<Rightarrow> Inr (activation, dropout, l2_norm))"

text \<open>
  \<^verbatim>\<open>build\<close>, lines 71 to 106. The names \<^verbatim>\<open>locals\<close>, \<^verbatim>\<open>Bunch\<close> and
  \<^verbatim>\<open>set_equal_in_length\<close> are read as globals when lines 75, 77 and 78 call them.
  \<open>w\<close> holds the values Keras gives the trainable variables it creates.
\<close>

definition build ::
  "weights \<Rightarrow> dagnn \<Rightarrow> nat cfg \<Rightarrow> string cfg \<Rightarrow> real cfg \<Rightarrow> real cfg \<Rightarrow> real \<Rightarrow> bool
     \<Rightarrow> py_error + dagnn" where
  "build w self hiddens activations dropouts l2_norms lr use_bias =
     bindE (load_global ''locals'') (\<lambda>_.
     bindE (load_global ''Bunch'') (\<lambda>_.
     bindE (load_global ''set_equal_in_length'') (\<lambda>_.
     bindE (set_equal_in_length hiddens activations dropouts l2_norms)
       (\<lambda>(hiddens, activations, dropouts, l2_norms).
     let paras = \<lparr>bp_hiddens = hiddens, bp_activations = activations,
                  bp_dropouts = dropouts, bp_l2_norms = l2_norms,
                  bp_lr = lr, bp_use_bias = use_bias\<rparr>
     in
     bindE (getattr ''paras'' (self_paras self)) (\<lambda>_.
     bindE (getattr ''model_paras'' (self_model_paras self)) (\<lambda>_.
     let self = self\<lparr>self_paras := Some paras, self_model_paras := Some paras\<rparr>;
         zs = zip hiddens (zip activations (zip dropouts l2_norms))
     in
     bindE (getattr ''n_attrs'' (self_n_attrs self)) (\<lambda>n_attrs.
     bindE (dense_stack use_bias zs) (\<lambda>Ds.
     bindE (getattr ''n_classes'' (self_n_classes self)) (\<lambda>n_classes.
     bindE (loop_last zs) (\<lambda>(activation, dropout, l2_norm).
     bindE (Dense n_classes use_bias activation l2_norm) (\<lambda>D.
     bindE (getattr ''K'' (self_K self)) (\<lambda>K.
     bindE (PropConvolution K use_bias ''sigmoid'' l2_norm) (\<lambda>P.
       Inr (self\<lparr>self_model :=
              Some \<lparr>net_n_attrs = n_attrs, net_layers = Ds @ [(D, dropout)],
                    net_prop = P, net_lr = lr, net_weights = w\<rparr>\<rparr>))))))))))))))"

text \<open>
  \<^verbatim>\<open>predict\<close>, lines 115 to 124. The conversion of line 123 from a tensor to an array
  keeps the values. \<open>keep\<close> is the random state of the process at the call.
\<close>

definition predict ::
  "graphgallery \<Rightarrow> (nat \<Rightarrow> nat \<Rightarrow> nat \<Rightarrow> bool) \<Rightarrow> dagnn \<Rightarrow> pyval \<Rightarrow> py_error + matrix" where
  "predict G keep self index =
     bindE (super_predict G self index) (\<lambda>_.
     bindE (asintarr G index) (\<lambda>index.
     bindE (astensors G index) (\<lambda>index.
     bindE (getattr ''model'' (self_model self)) (\<lambda>net.
     bindE (getattr ''x_norm'' (self_x_norm self)) (\<lambda>x_norm.
     bindE (getattr ''adj_norm'' (self_adj_norm self)) (\<lambda>adj_norm.
       predict_on_batch net keep x_norm adj_norm index))))))"

section \<open>Instances for evaluation\<close>

text \<open>
  An instance with no attribute set, and a library whose base class stores what it is
  given, whose adjacency normalisation returns a fixed matrix unlike its argument, and
  whose other helpers return their argument.
\<close>

definition blank_instance :: dagnn where
  "blank_instance =
     \<lparr>self_graph = PyNone, self_device = PyNone, self_seed = PyNone, self_name = PyNone,
      self_n_attrs = None, self_n_classes = None, self_paras = None,
      self_model_paras = None, self_norm_adj = None, self_norm_x = None, self_K = None,
      self_adj = None, self_x = None, self_x_norm = None, self_adj_norm = None,
      self_model = None\<rparr>"

definition plain_library :: graphgallery where
  "plain_library =
     \<lparr>super_init = (\<lambda>graph device seed name kwargs.
        Inr (blank_instance\<lparr>self_graph := graph, self_device := device,
                            self_seed := seed, self_name := name\<rparr>)),
      super_preprocess = (\<lambda>self adj x. Inr (self\<lparr>self_adj := Some adj, self_x := Some x\<rparr>)),
      super_predict = (\<lambda>self index. Inr ()),
      normalize_adj = (\<lambda>adj rate. Inr (PyArray [[42]])),
      normalize_x = (\<lambda>x norm. Inr x),
      astensors = (\<lambda>v. Inr v),
      asintarr = (\<lambda>v. Inr v)\<rparr>"

text \<open>The same library with a base class whose constructor raises.\<close>

definition raising_library :: graphgallery where
  "raising_library =
     plain_library\<lparr>super_init := (\<lambda>graph device seed name kwargs. Inl (ValueError ''graph''))\<rparr>"

text \<open>The propagation layer line 99 constructs, without bias, for \<open>k\<close> steps.\<close>

definition sigmoid_layer :: "nat \<Rightarrow> prop_layer" where
  "sigmoid_layer k = \<lparr>p_K = k, p_use_bias = False, p_activation = sigmoid, p_l2 = 5 / 1000\<rparr>"

text \<open>
  Values for the trainable variables: the identity as the kernel of every dense layer and
  a zero weight vector in the propagation operator.
\<close>

definition example_weights :: weights where
  "example_weights =
     \<lparr>dense_kernel = (\<lambda>l k j. if k = j then 1 else 0), dense_bias = (\<lambda>l j. 0),
      prop_kernel = (\<lambda>k. 0), prop_bias = 0\<rparr>"

section \<open>Properties\<close>

subsection \<open>Exceptions and names\<close>

lemma bindE_Inl: "bindE (Inl e) f = Inl e"
  by (simp add: bindE_def)

lemma bindE_Inr: "bindE (Inr v) f = f v"
  by (simp add: bindE_def)

lemma load_global_adj: "load_global ''adj'' = Inl (NameError ''adj'')"
  by (simp add: load_global_def module_globals_def builtin_names_def)

lemma load_global_set_equal_in_length:
  "load_global ''set_equal_in_length'' = Inl (NameError ''set_equal_in_length'')"
  by (simp add: load_global_def module_globals_def builtin_names_def)

lemma load_global_locals: "load_global ''locals'' = Inr (PyObject ''locals'')"
  by (simp add: load_global_def module_globals_def builtin_names_def)

lemma load_global_Bunch: "load_global ''Bunch'' = Inr (PyObject ''Bunch'')"
  by (simp add: load_global_def module_globals_def)

lemma DAGNN_init_outcome:
  "DAGNN_init G graph norm_adj norm_x K device seed name kwargs =
     bindE (super_init G graph device seed name kwargs) (\<lambda>_. Inl (NameError ''adj''))"
  by (simp add: DAGNN_init_def load_global_adj bindE_Inl Let_def)

lemma falsy_exponent:
  "na = PyNone \<or> na = PyInt 0 \<or> na = PyFloat 0 \<Longrightarrow> truthy na = Inr False"
  by (auto simp: truthy_def)

subsection \<open>Shapes\<close>

lemma length_lin_comb:
  "list_all (\<lambda>r. length r = d) rs \<Longrightarrow> length (lin_comb d as rs) = d"
  by (induction d as rs rule: lin_comb.induct) (simp_all add: vec_add_def vec_scale_def)

lemma is_matrix_mat_mul:
  assumes "length A = n" and "is_matrix n d H"
  shows "is_matrix n d (mat_mul A H)"
proof (cases H)
  case Nil
  with assms show ?thesis by (simp add: is_matrix_def mat_mul_def)
next
  case (Cons r rs)
  with assms have "width H = d" by (simp add: is_matrix_def width_def)
  with assms show ?thesis
    by (simp add: is_matrix_def mat_mul_def list_all_iff length_lin_comb)
qed

lemma propagate_shapes:
  "length A = n \<Longrightarrow> is_matrix n d H \<Longrightarrow> list_all (is_matrix n d) (propagate k A H)"
  by (induction k arbitrary: H) (simp_all add: is_matrix_mat_mul)

lemma propagate_nonempty: "propagate k A H \<noteq> []"
  by (cases k) simp_all

lemma is_matrix_gated:
  "is_matrix n d H \<Longrightarrow> is_matrix n d (gated (gates L w b H) H)"
  by (auto simp: is_matrix_def gated_def gates_def vec_scale_def list_all_iff set_zip)

lemma is_matrix_mat_add:
  "is_matrix n d M \<Longrightarrow> is_matrix n d N \<Longrightarrow> is_matrix n d (mat_add M N)"
  by (auto simp: is_matrix_def mat_add_def vec_add_def list_all_iff set_zip)

lemma is_matrix_mat_sum:
  "Ms \<noteq> [] \<Longrightarrow> list_all (is_matrix n d) Ms \<Longrightarrow> is_matrix n d (mat_sum Ms)"
  by (induction Ms rule: mat_sum.induct) (simp_all add: is_matrix_mat_add)

subsection \<open>The gates and the weighted sum\<close>

lemma sigmoid_zero: "sigmoid 0 = 1 / 2"
  by (simp add: sigmoid_def)

lemma keras_sigmoid: "keras_activation ''sigmoid'' = Inr sigmoid"
  by (simp add: keras_activation_def)

lemma PropConvolution_Inr:
  "PropConvolution K use_bias activation l2 = Inr L \<Longrightarrow>
     0 < K \<and> p_K L = nat K \<and> keras_activation activation = Inr (p_activation L)"
  by (auto simp: PropConvolution_def bindE_def split: if_splits sum.splits)

lemma PropConvolution_sigmoid_layer:
  "0 < k \<Longrightarrow> PropConvolution k False ''sigmoid'' (5 / 1000) = Inr (sigmoid_layer (nat k))"
  by (simp add: PropConvolution_def keras_sigmoid bindE_Inr sigmoid_layer_def)

lemma p_K_sigmoid_layer: "p_K (sigmoid_layer k) = k"
  by (simp add: sigmoid_layer_def)

lemma gates_zero_weights:
  "gates (sigmoid_layer k) (\<lambda>_. 0) b H = map (\<lambda>_. 1 / 2) H"
  by (simp add: gates_def gate_def dot_def sigmoid_layer_def sigmoid_zero case_prod_unfold)

lemma map2_gate_tensor:
  "map2 gated (gate_tensor L w b H0 A) (propagate (p_K L) A H0) =
     map (\<lambda>H. gated (gates L w b H) H) (propagate (p_K L) A H0)"
  by (simp add: gate_tensor_def zip_map1 zip_same_conv_map)

lemma vec_scale_add:
  "vec_add (vec_scale a r) (vec_scale c r) = vec_scale (a + c) r"
  by (induction r) (simp_all add: vec_add_def vec_scale_def algebra_simps)

lemma vec_scale_one: "vec_scale 1 r = r"
  by (simp add: vec_scale_def)

lemma vec_add_zero:
  "length r = d \<Longrightarrow> length s = d \<Longrightarrow>
     vec_add r (vec_add (vec_scale 0 s) (replicate d 0)) = r"
  by (rule nth_equalityI) (simp_all add: vec_add_def vec_scale_def)

lemma mat_mul_identity2:
  assumes "is_matrix 2 d H"
  shows "mat_mul [[1, 0], [0, 1]] H = H"
proof -
  from assms obtain r1 r2 where H: "H = [r1, r2]" and l: "length r1 = d" "length r2 = d"
    by (auto simp: is_matrix_def length_Suc_conv numeral_2_eq_2)
  have 1: "vec_add (vec_scale 1 r1) (vec_add (vec_scale 0 r2) (replicate d 0)) = r1"
    using l by (simp add: vec_scale_one vec_add_zero)
  have 2: "vec_add (vec_scale 0 r1) (vec_add (vec_scale 1 r2) (replicate d 0)) = r2"
    using l by (intro nth_equalityI) (simp_all add: vec_add_def vec_scale_def)
  show ?thesis
    using l 1 2 by (simp add: H mat_mul_def width_def)
qed

lemma gated_add:
  "length g0 = length g1 \<Longrightarrow>
     mat_add (gated g0 H) (gated g1 H) = gated (vec_add g0 g1) H"
proof (induction g0 g1 arbitrary: H rule: list_induct2)
  case Nil
  then show ?case by (simp add: mat_add_def gated_def vec_add_def)
next
  case (Cons a g0 c g1)
  then show ?case
    by (cases H) (simp_all add: mat_add_def gated_def vec_add_def vec_scale_add [unfolded vec_add_def])
qed

subsection \<open>The constructor\<close>

text \<open>
  C1, as the class has it. For every graph and every combination of the constructor
  arguments, the construction of a \<^verbatim>\<open>DAGNN\<close> does not complete: if the constructor of
  the base class raises, its exception is the outcome, and otherwise line 56 raises
  \<^verbatim>\<open>NameError\<close>, since it reads the name \<^verbatim>\<open>adj\<close>, which is bound nowhere.
\<close>

theorem DAGNN_init_NameError:
  "DAGNN_init G graph norm_adj norm_x K device seed name kwargs =
     bindE (super_init G graph device seed name kwargs) (\<lambda>_. Inl (NameError ''adj'')) \<and>
   isl (DAGNN_init G graph norm_adj norm_x K device seed name kwargs)"
proof -
  note eq = DAGNN_init_outcome [of G graph norm_adj norm_x K device seed name kwargs]
  have "isl (bindE (super_init G graph device seed name kwargs) (\<lambda>_. Inl (NameError ''adj'')))"
    by (cases "super_init G graph device seed name kwargs") (simp_all add: bindE_def)
  with eq show ?thesis
    by simp
qed

theorem DAGNN_init_NameError_witness:
  "DAGNN_init plain_library (PyObject ''graph'') (PyFloat (- 1 / 2)) PyNone 10
       (PyStr ''cpu:0'') PyNone PyNone [] = Inl (NameError ''adj'')"
  using DAGNN_init_NameError [of plain_library "PyObject ''graph''" "PyFloat (- 1 / 2)" PyNone 10
      "PyStr ''cpu:0''" PyNone PyNone "[]"]
  by (simp add: plain_library_def bindE_Inr)

text \<open>
  With a base class whose constructor raises \<^verbatim>\<open>ValueError\<close>, the constructor raises
  that exception, not \<^verbatim>\<open>NameError\<close>.
\<close>

theorem DAGNN_init_base_raises:
  "DAGNN_init raising_library (PyObject ''graph'') (PyFloat (- 1 / 2)) PyNone 10
       (PyStr ''cpu:0'') PyNone PyNone [] = Inl (ValueError ''graph'')"
  by (simp add: DAGNN_init_outcome raising_library_def plain_library_def bindE_Inl)

subsection \<open>The propagation operator\<close>

text \<open>
  C2. For \<open>K = 1\<close> the output of the Adaptive Propagation Operator is
  \<open>g\<^sub>0 \<cdot> H\<^sub>0 + g\<^sub>1 \<cdot> (A \<cdot> H\<^sub>0)\<close> and nothing more; when \<open>A\<close> is the identity on two nodes, it
  is \<open>(g\<^sub>0 + g\<^sub>1) \<cdot> H\<^sub>0\<close>, entry by entry.
\<close>

theorem PropConvolution_K1:
  assumes "PropConvolution 1 use_bias activation l2 = Inr L"
  shows "(is_matrix (length H0) (length H0) A \<longrightarrow>
            PropConvolution_call L w b H0 A =
              Inr (mat_add (gated (gates L w b H0) H0)
                           (gated (gates L w b (mat_mul A H0)) (mat_mul A H0)))) \<and>
         (is_matrix 2 d H0 \<longrightarrow>
            PropConvolution_call L w b H0 [[1, 0], [0, 1]] =
              Inr (gated (vec_add (gates L w b H0) (gates L w b (mat_mul [[1, 0], [0, 1]] H0)))
                         H0))"
proof -
  have K: "p_K L = Suc 0"
    using PropConvolution_Inr [OF assms] by simp
  have call: "PropConvolution_call L w b H0 A =
      Inr (mat_add (gated (gates L w b H0) H0)
                   (gated (gates L w b (mat_mul A H0)) (mat_mul A H0)))"
    if "is_matrix (length H0) (length H0) A" for A
    using that by (simp add: PropConvolution_call_def gate_tensor_def K)
  have "PropConvolution_call L w b H0 [[1, 0], [0, 1]] =
      Inr (gated (vec_add (gates L w b H0) (gates L w b (mat_mul [[1, 0], [0, 1]] H0))) H0)"
    if H: "is_matrix 2 d H0"
  proof -
    have "length H0 = 2"
      using H by (simp add: is_matrix_def)
    then have "is_matrix (length H0) (length H0) [[1, 0], [0, 1]]"
      by (simp add: is_matrix_def)
    then show ?thesis
      by (simp add: call mat_mul_identity2 [OF H] gated_add gates_def)
  qed
  with call show ?thesis
    by blast
qed

theorem PropConvolution_K1_witness:
  "PropConvolution 1 False ''sigmoid'' (5 / 1000) = Inr (sigmoid_layer 1) \<and>
   PropConvolution_call (sigmoid_layer 1) (\<lambda>_. 0) 0 [[1, 2], [3, 4]] [[0, 1], [1, 0]] =
     Inr [[2, 3], [2, 3]] \<and>
   PropConvolution_call (sigmoid_layer 1) (\<lambda>_. 0) 0 [[1, 2], [3, 4]] [[1, 0], [0, 1]] =
     Inr [[1, 2], [3, 4]]"
proof -
  have L: "PropConvolution 1 False ''sigmoid'' (5 / 1000) = Inr (sigmoid_layer 1)"
    using PropConvolution_sigmoid_layer [of 1] by simp
  have 1: "is_matrix (length [[1, 2], [3, 4 :: real]]) (length [[1, 2], [3, 4 :: real]]) [[0, 1], [1, 0]]"
    and 2: "is_matrix 2 2 [[1, 2], [3, 4]]"
    by (simp_all add: is_matrix_def)
  note K1 = PropConvolution_K1 [OF L, of "[[1, 2], [3, 4]]" _ "\<lambda>_. 0" 0 2]
  have a: "PropConvolution_call (sigmoid_layer 1) (\<lambda>_. 0) 0 [[1, 2], [3, 4]] [[0, 1], [1, 0]] =
     Inr [[2, 3], [2, 3]]"
    using K1 [of "[[0, 1], [1, 0]]"] 1
    by (simp add: gates_zero_weights mat_mul_def width_def gated_def mat_add_def
        vec_add_def vec_scale_def)
  have b: "PropConvolution_call (sigmoid_layer 1) (\<lambda>_. 0) 0 [[1, 2], [3, 4]] [[1, 0], [0, 1]] =
     Inr [[1, 2], [3, 4]]"
    using K1 [of "[[1, 0], [0, 1]]"] 2
    by (simp add: gates_zero_weights mat_mul_def width_def gated_def
        vec_add_def vec_scale_def)
  from L a b show ?thesis
    by simp
qed

text \<open>
  C4. For every \<open>K \<ge> 1\<close> and every square adjacency operator with as many rows as
  \<open>H\<^sub>0\<close>, the Adaptive Propagation Operator returns a tensor of the shape of \<open>H\<^sub>0\<close>: as
  many nodes, as many columns.
\<close>

theorem PropConvolution_shape:
  assumes "1 \<le> K" and "is_matrix n d H0" and "is_matrix n n A"
  shows "\<exists>L out. PropConvolution K use_bias ''sigmoid'' l2 = Inr L \<and>
           PropConvolution_call L w b H0 A = Inr out \<and> is_matrix n d out"
proof -
  define L where "L = \<lparr>p_K = nat K, p_use_bias = use_bias, p_activation = sigmoid, p_l2 = l2\<rparr>"
  have init: "PropConvolution K use_bias ''sigmoid'' l2 = Inr L"
    using assms(1) by (simp add: PropConvolution_def keras_sigmoid bindE_Inr L_def)
  have n: "length H0 = n" and A: "length A = n"
    using assms(2,3) by (simp_all add: is_matrix_def)
  let ?Ms = "map (\<lambda>H. gated (gates L w b H) H) (propagate (p_K L) A H0)"
  have "list_all (is_matrix n d) (propagate (p_K L) A H0)"
    using A assms(2) by (rule propagate_shapes)
  then have "list_all (is_matrix n d) ?Ms"
    by (simp add: list_all_iff is_matrix_gated)
  moreover have "?Ms \<noteq> []"
    by (simp add: propagate_nonempty)
  ultimately have "is_matrix n d (mat_sum ?Ms)"
    by (simp add: is_matrix_mat_sum)
  moreover have "PropConvolution_call L w b H0 A = Inr (mat_sum ?Ms)"
    using assms(3) n by (simp add: PropConvolution_call_def map2_gate_tensor)
  ultimately show ?thesis
    using init by blast
qed

theorem PropConvolution_shape_witness:
  "PropConvolution 2 False ''sigmoid'' (5 / 1000) = Inr (sigmoid_layer 2) \<and>
   PropConvolution_call (sigmoid_layer 2) (\<lambda>_. 0) 0 [[1, 2], [3, 4]] [[0, 1], [1, 0]] =
     Inr [[5 / 2, 4], [7 / 2, 5]] \<and>
   is_matrix 2 2 [[5 / 2, 4], [7 / 2, 5]]"
proof -
  have 1: "(1::int) \<le> 2"
    by simp
  have 2: "is_matrix 2 2 [[1, 2], [3, 4]]" and 3: "is_matrix 2 2 [[0, 1], [1, 0]]"
    by (simp_all add: is_matrix_def)
  have L: "PropConvolution 2 False ''sigmoid'' (5 / 1000) = Inr (sigmoid_layer 2)"
    using PropConvolution_sigmoid_layer [of 2] by simp
  have p: "propagate 2 [[0, 1], [1, 0]] [[1, 2], [3, 4]] =
      [[[1, 2], [3, 4]], [[3, 4], [1, 2]], [[1, 2], [3, 4]]]"
    by (simp add: numeral_2_eq_2 mat_mul_def width_def vec_add_def vec_scale_def)
  have c: "PropConvolution_call (sigmoid_layer 2) (\<lambda>_. 0) 0 [[1, 2], [3, 4]] [[0, 1], [1, 0]] =
      Inr [[5 / 2, 4], [7 / 2, 5]]"
    unfolding PropConvolution_call_def map2_gate_tensor
    by (simp add: is_matrix_def gates_zero_weights p_K_sigmoid_layer p gated_def mat_add_def
        vec_add_def vec_scale_def)
  from PropConvolution_shape [OF 1 2 3, of False "5 / 1000" "\<lambda>_. 0" 0] L c show ?thesis
    by simp
qed

text \<open>
  The rule of section 4.2 for the step count, as the constructor of the operator applies
  it: rejected with \<^verbatim>\<open>ConfigurationError\<close> when \<open>K\<close> is zero or negative, and only then.
\<close>

lemma PropConvolution_ConfigurationError:
  "(PropConvolution K use_bias activation l2 = Inl ConfigurationError) = (K \<le> 0)"
  by (simp add: PropConvolution_def keras_activation_def bindE_def)

subsection \<open>The gather\<close>

text \<open>
  C8. Index Gather round-trip: gathering all node indices \<open>0..n-1\<close> in their natural
  order returns the tensor itself, row for row.
\<close>

theorem Gather_all_indices: "Gather H (map int [0..<length H]) = Inr H"
  by (simp add: Gather_def list_all_iff map_nth comp_def)

theorem Gather_all_indices_witness:
  "Gather [[1, 2], [3, 4]] [0, 1] = Inr [[1, 2], [3, 4]]"
  using Gather_all_indices [of "[[1, 2], [3, 4]]"] by simp

subsection \<open>Building the model\<close>

text \<open>
  C6. \<^verbatim>\<open>build\<close> is to bring its four per-layer lists to equal lengths and to fail with
  \<^verbatim>\<open>ConfigurationError\<close> when it cannot. On two widths, three activations, one dropout
  rate and one L2 strength, the function described for line 78 does fail so, but
  \<^verbatim>\<open>build\<close> raises \<^verbatim>\<open>NameError\<close> before it reaches it.
\<close>

theorem build_mismatched_lengths:
  "build w self (Many [64, 32]) (Many [''relu'', ''relu'', ''relu'']) (Many [1 / 2])
       (Many [5 / 1000]) (1 / 100) False = Inl (NameError ''set_equal_in_length'') \<and>
   set_equal_in_length (Many [64, 32]) (Many [''relu'', ''relu'', ''relu'']) (Many [1 / 2])
       (Many [5 / 1000]) = Inl ConfigurationError"
  by (simp add: build_def load_global_locals load_global_Bunch
      load_global_set_equal_in_length bindE_Inl bindE_Inr
      set_equal_in_length_def list_length_def broadcast_def)

text \<open>
  C9. For every configuration of its arguments \<^verbatim>\<open>build\<close> raises \<^verbatim>\<open>NameError\<close> before
  it constructs a layer: line 78 calls \<^verbatim>\<open>set_equal_in_length\<close>, a name the module
  neither defines nor imports.
\<close>

theorem build_NameError:
  "build w self hiddens activations dropouts l2_norms lr use_bias =
     Inl (NameError ''set_equal_in_length'')"
  by (simp add: build_def load_global_locals load_global_Bunch
      load_global_set_equal_in_length bindE_Inl bindE_Inr)

theorem build_NameError_witness:
  "build example_weights blank_instance (Many [64]) (Many [''relu'']) (Many [1 / 2])
     (Many [5 / 1000]) (1 / 100) False = Inl (NameError ''set_equal_in_length'')"
  by (rule build_NameError)

text \<open>
  C7. The step count \<open>K\<close> must be a positive integer, and a zero or negative one is to be
  rejected with \<^verbatim>\<open>ConfigurationError\<close> before any propagation. The constructor of the
  operator does reject \<open>K = 0\<close> so, but the class does not get to it: with \<open>K = 0\<close> the
  constructor raises \<^verbatim>\<open>NameError\<close> on line 56, and \<^verbatim>\<open>build\<close> on an instance that holds
  \<open>K = 0\<close> raises \<^verbatim>\<open>NameError\<close> on line 78, before line 99 constructs the operator.
\<close>

theorem DAGNN_K_zero:
  "DAGNN_init plain_library (PyObject ''graph'') (PyFloat (- 1 / 2)) PyNone 0
       (PyStr ''cpu:0'') PyNone PyNone [] = Inl (NameError ''adj'') \<and>
   build w (set_hyperparameters self norm_adj norm_x 0) hiddens activations dropouts l2_norms
       lr use_bias = Inl (NameError ''set_equal_in_length'') \<and>
   PropConvolution 0 use_bias ''sigmoid'' l2 = Inl ConfigurationError"
  by (simp add: DAGNN_init_outcome plain_library_def bindE_Inr bindE_Inl build_def
      load_global_locals load_global_Bunch load_global_set_equal_in_length
      PropConvolution_ConfigurationError)

subsection \<open>Preprocessing\<close>

text \<open>
  C10. When the exponent \<^verbatim>\<open>norm_adj\<close> is \<^verbatim>\<open>None\<close>, \<^verbatim>\<open>0\<close> or \<^verbatim>\<open>0.0\<close>,
  \<^verbatim>\<open>preprocess\<close> does not normalise the adjacency matrix: the matrix the base class
  stored goes to the tensor conversion as it is, and the outcome does not depend on what
  the normalisation would compute. An exponent of zero is read as no normalisation.
\<close>

theorem preprocess_falsy_norm_adj:
  assumes "super_preprocess G self adj x = Inr s"
    and "self_norm_adj s = Some na"
    and "na = PyNone \<or> na = PyInt 0 \<or> na = PyFloat 0"
    and "self_adj s = Some a"
  shows "preprocess G self adj x =
           bindE (getattr ''x'' (self_x s)) (\<lambda>xv.
           bindE (getattr ''norm_x'' (self_norm_x s)) (\<lambda>norm_x.
           bindE (truthy norm_x) (\<lambda>t.
           bindE (if t then normalize_x G xv norm_x else Inr xv) (\<lambda>xn.
           bindE (astensors G (PyList [xn, a])) (\<lambda>ts.
           bindE (unpack2 ts) (\<lambda>(x_norm, adj_norm).
             Inr (s\<lparr>self_x_norm := Some x_norm, self_adj_norm := Some adj_norm\<rparr>))))))) \<and>
         preprocess (G\<lparr>normalize_adj := f\<rparr>) self adj x = preprocess G self adj x"
proof -
  have t: "truthy na = Inr False"
    using assms(3) by (rule falsy_exponent)
  have 1: "preprocess G' self adj x =
           bindE (getattr ''x'' (self_x s)) (\<lambda>xv.
           bindE (getattr ''norm_x'' (self_norm_x s)) (\<lambda>norm_x.
           bindE (truthy norm_x) (\<lambda>t.
           bindE (if t then normalize_x G' xv norm_x else Inr xv) (\<lambda>xn.
           bindE (astensors G' (PyList [xn, a])) (\<lambda>ts.
           bindE (unpack2 ts) (\<lambda>(x_norm, adj_norm).
             Inr (s\<lparr>self_x_norm := Some x_norm, self_adj_norm := Some adj_norm\<rparr>)))))))"
    if "super_preprocess G' self adj x = Inr s" for G'
    unfolding preprocess_def that
    by (simp add: bindE_Inr assms(2,4) getattr_def t)
  have "preprocess (G\<lparr>normalize_adj := f\<rparr>) self adj x = preprocess G self adj x"
    using 1 [of G] 1 [of "G\<lparr>normalize_adj := f\<rparr>"] assms(1)
    by (simp cong: if_cong)
  with 1 [OF assms(1)] show ?thesis
    by simp
qed

theorem preprocess_falsy_norm_adj_witness:
  "preprocess plain_library (blank_instance\<lparr>self_norm_adj := Some (PyInt 0), self_norm_x := Some PyNone\<rparr>)
       (PyArray [[0, 1], [1, 0]]) (PyArray [[1], [2]]) =
     Inr (blank_instance\<lparr>self_norm_adj := Some (PyInt 0), self_norm_x := Some PyNone,
            self_adj := Some (PyArray [[0, 1], [1, 0]]), self_x := Some (PyArray [[1], [2]]),
            self_x_norm := Some (PyArray [[1], [2]]),
            self_adj_norm := Some (PyArray [[0, 1], [1, 0]])\<rparr>)"
proof -
  let ?self = "blank_instance\<lparr>self_norm_adj := Some (PyInt 0), self_norm_x := Some PyNone\<rparr>"
  let ?A = "PyArray [[0, 1], [1, 0]]" and ?X = "PyArray [[1], [2]]"
  let ?s = "?self\<lparr>self_adj := Some ?A, self_x := Some ?X\<rparr>"
  have 1: "super_preprocess plain_library ?self ?A ?X = Inr ?s"
    by (simp add: plain_library_def)
  have 2: "self_norm_adj ?s = Some (PyInt 0)"
    by simp
  have 3: "PyInt 0 = PyNone \<or> PyInt 0 = PyInt 0 \<or> PyInt 0 = PyFloat 0"
    by simp
  have 4: "self_adj ?s = Some ?A"
    by simp
  show ?thesis
    using preprocess_falsy_norm_adj [OF 1 2 3 4]
    by (simp add: plain_library_def getattr_def bindE_Inr truthy_def unpack2_def)
qed

end
